theory Spec2Isabelle
  imports Main
begin

section \<open>Values of the host language\<close>

text \<open>
  The controller is generic over the argument type \<open>A\<close> and the result type \<open>R\<close>, and
  its error slot is typed \<open>any\<close>. The generics are erased at run time, and the code tests
  its values for truthiness (\<open>if (a)\<close>, \<open>x || undefined\<close>, \<open>if (error.value)\<close>), so the
  slots hold run-time values. Numbers are modelled as integers plus \<open>NaN\<close>; \<open>JError m\<close>
  is an \<open>Error\<close> object with message \<open>m\<close>; \<open>JObj n\<close> is any other object, named by \<open>n\<close>.
\<close>

datatype jsval =
    JUndefined
  | JNull
  | JBool bool
  | JNum int
  | JNaN
  | JStr string
  | JError string
  | JObj nat

fun truthy :: "jsval \<Rightarrow> bool" where
  "truthy JUndefined = False"
| "truthy JNull = False"
| "truthy (JBool b) = b"
| "truthy (JNum n) = (n \<noteq> 0)"
| "truthy JNaN = False"
| "truthy (JStr s) = (s \<noteq> [])"
| "truthy (JError m) = True"
| "truthy (JObj n) = True"

text \<open>
  How a call ends: it returns a value or throws one. For an \<open>async\<close> function and for a
  promise, \<open>Returned v\<close> is resolution with \<open>v\<close> and \<open>Threw e\<close> is rejection with \<open>e\<close>.
\<close>

datatype 'a completion = Threw jsval | Returned 'a

section \<open>Data model (task-state.ts, task-event.ts, task.ts)\<close>

datatype TaskState = Idle | Executing | Completed | Failed | Aborted

record TaskEventContext =
  c_state :: TaskState
  c_argument :: jsval
  c_result :: jsval
  c_error :: jsval

datatype hook_kind = OnIdle | OnExecuting | OnCompleted | OnFailed | OnAborted | OnFinished

text \<open>
  Callbacks are opaque collaborators, named by a number. What the controller does with them
  is recorded, in order, in a trace: a hook called with the context it reads at that moment,
  the wrapped action called with an argument, the abort capability called with an argument.
  Hooks, guards and the abort capability are taken to return normally and not to call back
  into the controller; the wrapped action and the argument factory may fail. The console
  output of the controller is not modelled.
\<close>

datatype event =
    Dispatched hook_kind nat TaskEventContext
  | ActionCalled jsval
  | AbortCalled jsval

record task =
  state :: TaskState
  argument :: jsval
  result :: jsval
  error :: jsval
  onIdleHooks :: "nat list"
  onExecutingHooks :: "nat list"
  onCompletedHooks :: "nat list"
  onFailedHooks :: "nat list"
  onAbortedHooks :: "nat list"
  onFinishedHooks :: "nat list"
  trace :: "event list"

datatype tag_option = NoTag | StaticTag string | ComputedTag "unit \<Rightarrow> string"

text \<open>
  The options object. An absent option is \<open>None\<close> (\<open>JUndefined\<close> for the initial
  argument); every access in the code is \<open>options?.x\<close> or \<open>options && ...\<close>, so a missing
  options object behaves as the record with every field absent. The file src/task.ts reads
  only \<open>tag\<close>, \<open>createArgument\<close>, \<open>canExecute\<close> and \<open>abort\<close>.
\<close>

record TaskOptions =
  o_tag :: tag_option
  o_argument :: jsval
  o_createArgument :: "(unit \<Rightarrow> jsval completion) option"
  o_canExecute :: "(jsval \<Rightarrow> bool) option"
  o_canAbort :: "(jsval \<Rightarrow> bool) option"
  o_abort :: "nat option"
  o_throwOnFail :: "bool option"

definition no_options :: TaskOptions where
  "no_options = \<lparr>o_tag = NoTag, o_argument = JUndefined, o_createArgument = None,
     o_canExecute = None, o_canAbort = None, o_abort = None, o_throwOnFail = None\<rparr>"

section \<open>Parts common to both files\<close>

definition isIdle :: "task \<Rightarrow> bool" where
  "isIdle t = (state t = Idle)"

definition isExecuting :: "task \<Rightarrow> bool" where
  "isExecuting t = (state t = Executing)"

definition isCompleted :: "task \<Rightarrow> bool" where
  "isCompleted t = (state t = Completed)"

definition isFailed :: "task \<Rightarrow> bool" where
  "isFailed t = (state t = Failed)"

definition isAborted :: "task \<Rightarrow> bool" where
  "isAborted t = (state t = Aborted)"

definition isFinished :: "task \<Rightarrow> bool" where
  "isFinished t = (isCompleted t \<or> isFailed t \<or> isAborted t)"

definition canExecute :: "TaskOptions \<Rightarrow> task \<Rightarrow> bool" where
  "canExecute opts t =
     (case o_canExecute opts of Some f \<Rightarrow> f (argument t) | None \<Rightarrow> True)"

definition onIdle :: "nat \<Rightarrow> task \<Rightarrow> task" where
  "onIdle fn t = t\<lparr>onIdleHooks := onIdleHooks t @ [fn]\<rparr>"

definition onExecuting :: "nat \<Rightarrow> task \<Rightarrow> task" where
  "onExecuting fn t = t\<lparr>onExecutingHooks := onExecutingHooks t @ [fn]\<rparr>"

definition onCompleted :: "nat \<Rightarrow> task \<Rightarrow> task" where
  "onCompleted fn t = t\<lparr>onCompletedHooks := onCompletedHooks t @ [fn]\<rparr>"

definition onFailed :: "nat \<Rightarrow> task \<Rightarrow> task" where
  "onFailed fn t = t\<lparr>onFailedHooks := onFailedHooks t @ [fn]\<rparr>"

definition onAborted :: "nat \<Rightarrow> task \<Rightarrow> task" where
  "onAborted fn t = t\<lparr>onAbortedHooks := onAbortedHooks t @ [fn]\<rparr>"

definition onFinished :: "nat \<Rightarrow> task \<Rightarrow> task" where
  "onFinished fn t = t\<lparr>onFinishedHooks := onFinishedHooks t @ [fn]\<rparr>"

text \<open>
  The context object has four getters that read the live cells, so a hook sees the slots as
  they are when it is called.
\<close>

definition createEventContext :: "task \<Rightarrow> TaskEventContext" where
  "createEventContext t =
     \<lparr>c_state = state t, c_argument = argument t, c_result = result t, c_error = error t\<rparr>"

text \<open>\<open>hooks.forEach((fn) => fn(context))\<close>: every callback once, in registration order.\<close>

definition forEach_hook :: "hook_kind \<Rightarrow> nat list \<Rightarrow> task \<Rightarrow> task" where
  "forEach_hook k hooks t =
     t\<lparr>trace := trace t @ map (\<lambda>fn. Dispatched k fn (createEventContext t)) hooks\<rparr>"

text \<open>
  The messages of the four guard errors. \<open>tg\<close> is the value of the computed \<open>tag\<close>; the
  templates test it for truthiness (\<open>tag_text\<close> is empty for an absent tag, and the
  empty string is falsy as well). The abort and reset messages are trimmed: with a tag
  the text ends in a full stop and nothing is removed, without one the trailing blank goes.
\<close>

definition tag_text :: "string option \<Rightarrow> string" where
  "tag_text tg = (case tg of None \<Rightarrow> [] | Some s \<Rightarrow> s)"

definition already_executing :: "string option \<Rightarrow> jsval" where
  "already_executing tg =
     JError (if tag_text tg \<noteq> [] then ''Task '' @ tag_text tg @ '' is already executing.''
             else ''Task already executing.'')"

definition cannot_execute :: "string option \<Rightarrow> jsval" where
  "cannot_execute tg =
     JError (if tag_text tg \<noteq> [] then ''Cannot execute task '' @ tag_text tg
             else ''Cannot execute task.'')"

definition cannot_abort :: "string option \<Rightarrow> jsval" where
  "cannot_abort tg =
     JError (if tag_text tg \<noteq> [] then ''Cannot abort task '' @ tag_text tg @ ''.''
             else ''Cannot abort task'')"

definition cannot_reset :: "string option \<Rightarrow> jsval" where
  "cannot_reset tg =
     JError (if tag_text tg \<noteq> [] then ''Cannot reset task '' @ tag_text tg @ ''.''
             else ''Cannot reset task'')"

definition new_task :: "jsval \<Rightarrow> task" where
  "new_task a = \<lparr>state = Idle, argument = a, result = JUndefined, error = JUndefined,
     onIdleHooks = [], onExecutingHooks = [], onCompletedHooks = [], onFailedHooks = [],
     onAbortedHooks = [], onFinishedHooks = [], trace = []\<rparr>"

section \<open>The controller of src/unnamed/part_000\<close>

text \<open>
  This file has the options \<open>argument\<close>, \<open>canAbort\<close> and \<open>throwOnFail\<close>. Its definitions
  carry the suffix \<open>_p0\<close>.
\<close>

definition tag_p0 :: "TaskOptions \<Rightarrow> string option" where
  "tag_p0 opts =
     (case o_tag opts of NoTag \<Rightarrow> None | StaticTag s \<Rightarrow> Some s | ComputedTag f \<Rightarrow> Some (f ()))"

definition useTask_p0 :: "TaskOptions \<Rightarrow> task" where
  "useTask_p0 opts =
     new_task (if truthy (o_argument opts) then o_argument opts else JUndefined)"

definition canAbort_p0 :: "TaskOptions \<Rightarrow> task \<Rightarrow> bool" where
  "canAbort_p0 opts t =
     (case o_canAbort opts of Some f \<Rightarrow> f (argument t) | None \<Rightarrow> False)"

text \<open>
  \<open>execute\<close> is an \<open>async\<close> function with one suspension point, the \<open>await\<close> of the
  action's promise. \<open>execute_start_p0\<close> is the code up to and including the call of the
  action (lines 178 to 201); it ends with \<open>Threw\<close> when a guard fails and with
  \<open>Returned ()\<close> when it reaches the \<open>await\<close>. \<open>execute_settle_p0\<close> is the code that runs
  when the promise settles (lines 199 to 223), given how it settled. \<open>abort\<close> or another
  \<open>execute\<close> may run between the two.
\<close>

definition execute_start_p0 :: "TaskOptions \<Rightarrow> jsval \<Rightarrow> task \<Rightarrow> unit completion \<times> task" where
  "execute_start_p0 opts a t =
     (if isExecuting t then (Threw (already_executing (tag_p0 opts)), t)
      else
        let t1 = (if truthy a then t\<lparr>argument := a\<rparr> else t) in
        if \<not> canExecute opts t1 then (Threw (cannot_execute (tag_p0 opts)), t1)
        else
          let t2 = t1\<lparr>state := Executing, result := JUndefined\<rparr>;
              t3 = forEach_hook OnExecuting (onExecutingHooks t2) t2
          in (Returned (), t3\<lparr>trace := trace t3 @ [ActionCalled (argument t3)]\<rparr>))"

definition execute_settle_p0 :: "TaskOptions \<Rightarrow> jsval completion \<Rightarrow> task \<Rightarrow> jsval completion \<times> task" where
  "execute_settle_p0 opts settled t =
     (let t1 = (case settled of
                  Returned v \<Rightarrow>
                    t\<lparr>result := (if truthy v then v else JUndefined), state := Completed\<rparr>
                | Threw e \<Rightarrow> t\<lparr>error := e, state := Failed\<rparr>);
          t2 = (if isCompleted t1 then forEach_hook OnCompleted (onCompletedHooks t1) t1
                else if isFailed t1 then forEach_hook OnFailed (onFailedHooks t1) t1
                else t1);
          t3 = forEach_hook OnFinished (onFinishedHooks t2) t2
      in if truthy (error t3) \<and> o_throwOnFail opts = Some True then (Threw (error t3), t3)
         else (Returned (result t3), t3))"

text \<open>
  A whole run of \<open>execute\<close> during which no other operation of the controller runs. The
  action is given by the way its promise settles for each argument.
\<close>

definition execute_p0 ::
  "TaskOptions \<Rightarrow> (jsval \<Rightarrow> jsval completion) \<Rightarrow> jsval \<Rightarrow> task \<Rightarrow> jsval completion \<times> task" where
  "execute_p0 opts action a t =
     (case execute_start_p0 opts a t of
        (Threw e, t') \<Rightarrow> (Threw e, t')
      | (Returned u, t') \<Rightarrow> execute_settle_p0 opts (action (argument t')) t')"

definition abort_p0 :: "TaskOptions \<Rightarrow> task \<Rightarrow> unit completion \<times> task" where
  "abort_p0 opts t =
     (if \<not> isExecuting t \<or> \<not> canAbort_p0 opts t
         \<or> \<not> (o_abort opts \<noteq> None \<and> o_canAbort opts \<noteq> None)
      then (Threw (cannot_abort (tag_p0 opts)), t)
      else
        let t1 = t\<lparr>state := Aborted\<rparr>
        in (Returned (), forEach_hook OnAborted (onAbortedHooks t1) t1))"

text \<open>
  \<open>reset\<close> awaits the argument factory when one is configured; a run of it during which no
  other operation runs is modelled. A factory that rejects ends \<open>reset\<close> there, with the
  state already set to \<open>Idle\<close>.
\<close>

definition reset_p0 :: "TaskOptions \<Rightarrow> task \<Rightarrow> unit completion \<times> task" where
  "reset_p0 opts t =
     (if isExecuting t then (Threw (cannot_reset (tag_p0 opts)), t)
      else
        let t1 = t\<lparr>state := Idle\<rparr> in
        case (case o_createArgument opts of
                Some f \<Rightarrow> f ()
              | None \<Rightarrow> Returned JUndefined) of
          Threw e \<Rightarrow> (Threw e, t1)
        | Returned v \<Rightarrow>
            let t2 = t1\<lparr>argument := v, result := JUndefined, error := JUndefined\<rparr>
            in (Returned (), forEach_hook OnIdle (onIdleHooks t2) t2))"

section \<open>The controller of src/src/task.ts\<close>

text \<open>
  This file seeds the argument from \<open>createArgument\<close>, has no \<open>canAbort\<close> predicate and no
  \<open>throwOnFail\<close>, and calls the abort capability. Its definitions carry the suffix \<open>_ts\<close>.
  \<open>execute\<close> is split at its \<open>await\<close> as before: \<open>execute_start_ts\<close> is lines 153 to 175
  and \<open>execute_settle_ts\<close> is lines 175 to 195.
\<close>

definition tag_ts :: "TaskOptions \<Rightarrow> string option" where
  "tag_ts opts =
     (case o_tag opts of
        NoTag \<Rightarrow> None
      | StaticTag s \<Rightarrow> (if s = [] then None else Some s)
      | ComputedTag f \<Rightarrow> Some (f ()))"

definition useTask_ts :: "TaskOptions \<Rightarrow> task completion" where
  "useTask_ts opts =
     (case o_createArgument opts of
        None \<Rightarrow> Returned (new_task JUndefined)
      | Some f \<Rightarrow> (case f () of Threw e \<Rightarrow> Threw e | Returned v \<Rightarrow> Returned (new_task v)))"

definition canAbort_ts :: "TaskOptions \<Rightarrow> task \<Rightarrow> bool" where
  "canAbort_ts opts t = (o_abort opts \<noteq> None)"

definition execute_start_ts :: "TaskOptions \<Rightarrow> jsval \<Rightarrow> task \<Rightarrow> unit completion \<times> task" where
  "execute_start_ts opts a t =
     (if isExecuting t then (Threw (already_executing (tag_ts opts)), t)
      else
        let t1 = (if truthy a then t\<lparr>argument := a\<rparr> else t) in
        if \<not> canExecute opts t1 then (Threw (cannot_execute (tag_ts opts)), t1)
        else
          let t2 = t1\<lparr>state := Executing, result := JUndefined, error := JUndefined\<rparr>;
              t3 = forEach_hook OnExecuting (onExecutingHooks t2) t2
          in (Returned (), t3\<lparr>trace := trace t3 @ [ActionCalled (argument t3)]\<rparr>))"

definition execute_settle_ts :: "TaskOptions \<Rightarrow> jsval completion \<Rightarrow> task \<Rightarrow> jsval completion \<times> task" where
  "execute_settle_ts opts settled t =
     (let t1 = (case settled of
                  Returned v \<Rightarrow> t\<lparr>result := v, state := Completed\<rparr>
                | Threw e \<Rightarrow> t\<lparr>error := e, state := Failed\<rparr>);
          t2 = (if isCompleted t1 then forEach_hook OnCompleted (onCompletedHooks t1) t1
                else if isFailed t1 then forEach_hook OnFailed (onFailedHooks t1) t1
                else t1);
          t3 = forEach_hook OnFinished (onFinishedHooks t2) t2
      in if truthy (error t3) then (Threw (error t3), t3)
         else (Returned (result t3), t3))"

definition execute_ts ::
  "TaskOptions \<Rightarrow> (jsval \<Rightarrow> jsval completion) \<Rightarrow> jsval \<Rightarrow> task \<Rightarrow> jsval completion \<times> task" where
  "execute_ts opts action a t =
     (case execute_start_ts opts a t of
        (Threw e, t') \<Rightarrow> (Threw e, t')
      | (Returned u, t') \<Rightarrow> execute_settle_ts opts (action (argument t')) t')"

definition abort_ts :: "TaskOptions \<Rightarrow> task \<Rightarrow> unit completion \<times> task" where
  "abort_ts opts t =
     (if \<not> isExecuting t \<or> \<not> canAbort_ts opts t \<or> \<not> (o_abort opts \<noteq> None)
      then (Threw (cannot_abort (tag_ts opts)), t)
      else
        let t1 = t\<lparr>state := Aborted\<rparr>;
            t2 = t1\<lparr>trace := trace t1 @ [AbortCalled (argument t1)]\<rparr>
        in (Returned (), forEach_hook OnAborted (onAbortedHooks t2) t2))"

definition reset_ts :: "TaskOptions \<Rightarrow> task \<Rightarrow> unit completion \<times> task" where
  "reset_ts opts t =
     (if isExecuting t then (Threw (cannot_reset (tag_ts opts)), t)
      else
        let t1 = t\<lparr>state := Idle\<rparr> in
        case (case o_createArgument opts of
                Some f \<Rightarrow> f ()
              | None \<Rightarrow> Returned JUndefined) of
          Threw e \<Rightarrow> (Threw e, t1)
        | Returned v \<Rightarrow>
            let t2 = t1\<lparr>argument := v, result := JUndefined, error := JUndefined\<rparr>
            in (Returned (), forEach_hook OnIdle (onIdleHooks t2) t2))"

section \<open>A concrete controller\<close>

text \<open>
  A small configuration and task on which the theorems below are instantiated: the action
  adds one to a number and rejects with \<open>Error("boom")\<close> on anything else, the guard accepts
  positive numbers, and one or two callbacks are registered for every hook.
\<close>

fun positive :: "jsval \<Rightarrow> bool" where
  "positive (JNum n) = (0 < n)"
| "positive v = False"

fun increment :: "jsval \<Rightarrow> jsval completion" where
  "increment (JNum n) = Returned (JNum (n + 1))"
| "increment v = Threw (JError ''boom'')"

definition demo_options :: TaskOptions where
  "demo_options = \<lparr>o_tag = StaticTag ''Sum'', o_argument = JNum 5,
     o_createArgument = Some (\<lambda>u. Returned (JNum 1)), o_canExecute = Some positive,
     o_canAbort = Some (\<lambda>a. True), o_abort = Some 0, o_throwOnFail = Some True\<rparr>"

definition demo_task :: task where
  "demo_task =
     onFinished 6 (onFinished 5 (onAborted 4 (onFailed 3 (onCompleted 2 (onExecuting 1
       (onIdle 0 (useTask_p0 demo_options)))))))"

definition running_task :: task where
  "running_task = snd (execute_start_p0 demo_options JUndefined demo_task)"

text \<open>
  A configuration with an abort capability and nothing else, and the controller of
  src/task.ts built from it, after \<open>execute()\<close> has reached its \<open>await\<close>.
\<close>

definition abort_only_options :: TaskOptions where
  "abort_only_options = no_options\<lparr>o_abort := Some 0\<rparr>"

definition abort_only_running :: task where
  "abort_only_running =
     (case useTask_ts abort_only_options of
        Threw e \<Rightarrow> new_task JUndefined
      | Returned t \<Rightarrow> snd (execute_start_ts abort_only_options JUndefined t))"

definition failed_task :: task where
  "failed_task = snd (execute_settle_p0 demo_options (Threw (JError ''boom'')) running_task)"

section \<open>Basic facts\<close>

lemmas ctl_defs = isExecuting_def isCompleted_def isFailed_def canExecute_def
  forEach_hook_def createEventContext_def Let_def

lemma demo_task_eq:
  "demo_task = \<lparr>state = Idle, argument = JNum 5, result = JUndefined, error = JUndefined,
     onIdleHooks = [0], onExecutingHooks = [1], onCompletedHooks = [2], onFailedHooks = [3],
     onAbortedHooks = [4], onFinishedHooks = [5, 6], trace = []\<rparr>"
  by (simp add: demo_task_def demo_options_def new_task_def useTask_p0_def onIdle_def
      onExecuting_def onCompleted_def onFailed_def onAborted_def onFinished_def)

lemma running_task_eq:
  "running_task = \<lparr>state = Executing, argument = JNum 5, result = JUndefined,
     error = JUndefined,
     onIdleHooks = [0], onExecutingHooks = [1], onCompletedHooks = [2], onFailedHooks = [3],
     onAbortedHooks = [4], onFinishedHooks = [5, 6],
     trace = [Dispatched OnExecuting 1 \<lparr>c_state = Executing, c_argument = JNum 5,
                c_result = JUndefined, c_error = JUndefined\<rparr>, ActionCalled (JNum 5)]\<rparr>"
  by (simp add: running_task_def demo_task_eq execute_start_p0_def ctl_defs demo_options_def)

lemma failed_task_eq:
  "failed_task = \<lparr>state = Failed, argument = JNum 5, result = JUndefined,
     error = JError ''boom'',
     onIdleHooks = [0], onExecutingHooks = [1], onCompletedHooks = [2], onFailedHooks = [3],
     onAbortedHooks = [4], onFinishedHooks = [5, 6],
     trace = [Dispatched OnExecuting 1 \<lparr>c_state = Executing, c_argument = JNum 5,
                c_result = JUndefined, c_error = JUndefined\<rparr>, ActionCalled (JNum 5),
              Dispatched OnFailed 3 \<lparr>c_state = Failed, c_argument = JNum 5,
                c_result = JUndefined, c_error = JError ''boom''\<rparr>,
              Dispatched OnFinished 5 \<lparr>c_state = Failed, c_argument = JNum 5,
                c_result = JUndefined, c_error = JError ''boom''\<rparr>,
              Dispatched OnFinished 6 \<lparr>c_state = Failed, c_argument = JNum 5,
                c_result = JUndefined, c_error = JError ''boom''\<rparr>]\<rparr>"
  by (simp add: failed_task_def running_task_eq execute_settle_p0_def ctl_defs)

lemma demo_tags:
  "tag_p0 demo_options = Some ''Sum''" "tag_ts demo_options = Some ''Sum''"
  by (simp_all add: tag_p0_def tag_ts_def demo_options_def)

section \<open>Guard failures\<close>

text \<open>
  C7. Whenever \<open>isExecuting\<close> is true, \<open>execute\<close> raises the already-executing error and
  changes nothing: the state, the argument, the result and the error slots (indeed the whole
  controller) are as before. This holds in both files, whatever argument is passed.
\<close>

theorem execute_while_executing:
  "isExecuting t \<Longrightarrow>
     execute_p0 opts action a t = (Threw (already_executing (tag_p0 opts)), t) \<and>
     execute_ts opts action a t = (Threw (already_executing (tag_ts opts)), t)"
  by (simp add: execute_p0_def execute_ts_def execute_start_p0_def execute_start_ts_def)

theorem execute_while_executing_witness:
  "isExecuting running_task \<and>
   execute_p0 demo_options increment (JNum 9) running_task =
     (Threw (JError ''Task Sum is already executing.''), running_task) \<and>
   execute_ts demo_options increment (JNum 9) running_task =
     (Threw (JError ''Task Sum is already executing.''), running_task)"
proof -
  have ex: "isExecuting running_task"
    by (simp add: running_task_eq isExecuting_def)
  show ?thesis
    using ex execute_while_executing [OF ex, of demo_options increment "JNum 9"]
    by (simp add: demo_tags already_executing_def tag_text_def)
qed

text \<open>
  C10. When \<open>execute\<close> is called outside \<open>Executing\<close> with a truthy argument that the
  \<open>canExecute\<close> guard rejects, it raises the cannot-execute error, and the controller it leaves
  behind differs from the one before in exactly one place: the stored argument is the
  supplied value. The state is unchanged. This holds in both files.
\<close>

theorem execute_guard_failure_keeps_argument:
  "\<not> isExecuting t \<Longrightarrow> truthy a \<Longrightarrow> \<not> canExecute opts (t\<lparr>argument := a\<rparr>) \<Longrightarrow>
     execute_p0 opts action a t = (Threw (cannot_execute (tag_p0 opts)), t\<lparr>argument := a\<rparr>) \<and>
     execute_ts opts action a t = (Threw (cannot_execute (tag_ts opts)), t\<lparr>argument := a\<rparr>) \<and>
     state (t\<lparr>argument := a\<rparr>) = state t"
  by (simp add: execute_p0_def execute_ts_def execute_start_p0_def execute_start_ts_def)

theorem execute_guard_failure_keeps_argument_witness:
  "\<not> isExecuting demo_task \<and> truthy (JNum (- 2)) \<and>
   \<not> canExecute demo_options (demo_task\<lparr>argument := JNum (- 2)\<rparr>) \<and>
   argument demo_task = JNum 5 \<and>
   execute_p0 demo_options increment (JNum (- 2)) demo_task =
     (Threw (JError ''Cannot execute task Sum''), demo_task\<lparr>argument := JNum (- 2)\<rparr>) \<and>
   execute_ts demo_options increment (JNum (- 2)) demo_task =
     (Threw (JError ''Cannot execute task Sum''), demo_task\<lparr>argument := JNum (- 2)\<rparr>)"
proof -
  have h1: "\<not> isExecuting demo_task"
    by (simp add: demo_task_eq isExecuting_def)
  have h2: "truthy (JNum (- 2))"
    by simp
  have h3: "\<not> canExecute demo_options (demo_task\<lparr>argument := JNum (- 2)\<rparr>)"
    by (simp add: canExecute_def demo_options_def)
  have h4: "argument demo_task = JNum 5"
    by (simp add: demo_task_eq)
  show ?thesis
    using h1 h2 h3 h4
      execute_guard_failure_keeps_argument [OF h1 h2 h3, of increment]
    by (simp add: demo_tags cannot_execute_def tag_text_def)
qed

text \<open>
  C6, as amended. In part_000 \<open>abort\<close> succeeds exactly when the state is \<open>Executing\<close>, an
  abort capability is configured and the configured \<open>canAbort\<close> predicate is true for the
  current argument (the guard is false when no predicate is configured). In src/task.ts,
  which has no \<open>canAbort\<close> predicate, \<open>abort\<close> succeeds exactly when the state is
  \<open>Executing\<close> and an abort capability is configured; its \<open>canAbort\<close> projection is the
  presence of the capability and does not look at the argument. In every other case \<open>abort\<close>
  raises the cannot-abort error and leaves the controller as it was, in both files.
\<close>

theorem abort_succeeds_iff:
  "(fst (abort_p0 opts t) = Returned () \<longleftrightarrow>
      isExecuting t \<and> o_abort opts \<noteq> None \<and> canAbort_p0 opts t) \<and>
   (canAbort_p0 opts t \<longleftrightarrow> (\<exists>g. o_canAbort opts = Some g \<and> g (argument t))) \<and>
   (fst (abort_p0 opts t) \<noteq> Returned () \<longrightarrow>
      abort_p0 opts t = (Threw (cannot_abort (tag_p0 opts)), t)) \<and>
   (fst (abort_ts opts t) = Returned () \<longleftrightarrow> isExecuting t \<and> o_abort opts \<noteq> None) \<and>
   (canAbort_ts opts t \<longleftrightarrow> o_abort opts \<noteq> None) \<and>
   (fst (abort_ts opts t) \<noteq> Returned () \<longrightarrow>
      abort_ts opts t = (Threw (cannot_abort (tag_ts opts)), t))"
  by (auto simp: abort_p0_def abort_ts_def canAbort_p0_def canAbort_ts_def Let_def
      split: option.splits)

theorem abort_succeeds_iff_witness:
  "isExecuting running_task \<and> o_abort demo_options \<noteq> None \<and>
   canAbort_p0 demo_options running_task \<and> canAbort_ts demo_options running_task \<and>
   fst (abort_p0 demo_options running_task) = Returned () \<and>
   fst (abort_ts demo_options running_task) = Returned () \<and>
   \<not> isExecuting demo_task \<and>
   abort_p0 demo_options demo_task = (Threw (JError ''Cannot abort task Sum.''), demo_task) \<and>
   abort_ts demo_options demo_task = (Threw (JError ''Cannot abort task Sum.''), demo_task)"
proof -
  have h1: "isExecuting running_task \<and> o_abort demo_options \<noteq> None \<and>
      canAbort_p0 demo_options running_task \<and> canAbort_ts demo_options running_task"
    by (simp add: running_task_eq isExecuting_def demo_options_def canAbort_p0_def
        canAbort_ts_def)
  have h2: "\<not> isExecuting demo_task"
    by (simp add: demo_task_eq isExecuting_def)
  show ?thesis
    using h1 h2 abort_succeeds_iff [of demo_options running_task]
      abort_succeeds_iff [of demo_options demo_task]
    by (auto simp: demo_tags cannot_abort_def tag_text_def)
qed

text \<open>
  The claim C6 as written fails in src/task.ts. With the options \<open>{abort: f}\<close> and no
  \<open>canAbort\<close> predicate, the guard of the claim is false (its default), and part_000 refuses
  to abort the running task; the \<open>abort\<close> of src/task.ts succeeds on the same controller
  and moves it to \<open>Aborted\<close>.
\<close>

theorem abort_without_guard_counterexample:
  "useTask_ts abort_only_options = Returned (new_task JUndefined) \<and>
   isExecuting abort_only_running \<and>
   o_abort abort_only_options = Some 0 \<and>
   o_canAbort abort_only_options = None \<and>
   \<not> canAbort_p0 abort_only_options abort_only_running \<and>
   fst (abort_ts abort_only_options abort_only_running) = Returned () \<and>
   state (snd (abort_ts abort_only_options abort_only_running)) = Aborted \<and>
   abort_p0 abort_only_options abort_only_running =
     (Threw (JError ''Cannot abort task''), abort_only_running)"
  by (simp add: abort_only_running_def abort_only_options_def no_options_def useTask_ts_def
      new_task_def execute_start_ts_def abort_ts_def abort_p0_def canAbort_ts_def
      canAbort_p0_def tag_p0_def cannot_abort_def tag_text_def ctl_defs)

section \<open>Reset\<close>

text \<open>
  C8. From every state other than \<open>Executing\<close>, \<open>reset\<close> returns the controller to \<open>Idle\<close>,
  clears the result and error slots, sets the argument to the output \<open>v\<close> of the configured
  \<open>createArgument\<close> factory (to the absent value when no factory is configured), and then
  calls every \<open>onIdle\<close> hook once, in registration order, each seeing the new slots. Nothing
  else changes. This holds in both files.
\<close>

theorem reset_effect:
  "\<not> isExecuting t \<Longrightarrow>
   (case o_createArgument opts of None \<Rightarrow> v = JUndefined | Some f \<Rightarrow> f () = Returned v) \<Longrightarrow>
   reset_p0 opts t =
     (Returned (),
      t\<lparr>state := Idle, argument := v, result := JUndefined, error := JUndefined,
        trace := trace t @ map (\<lambda>fn. Dispatched OnIdle fn
           \<lparr>c_state = Idle, c_argument = v, c_result = JUndefined, c_error = JUndefined\<rparr>)
           (onIdleHooks t)\<rparr>) \<and>
   reset_ts opts t = reset_p0 opts t"
  by (auto simp: reset_p0_def reset_ts_def ctl_defs split: option.splits)

theorem reset_effect_witness:
  "\<not> isExecuting failed_task \<and>
   (case o_createArgument demo_options of
      None \<Rightarrow> JNum 1 = JUndefined | Some f \<Rightarrow> f () = Returned (JNum 1)) \<and>
   error failed_task = JError ''boom'' \<and>
   reset_p0 demo_options failed_task =
     (Returned (),
      failed_task\<lparr>state := Idle, argument := JNum 1, result := JUndefined,
        error := JUndefined,
        trace := trace failed_task @ [Dispatched OnIdle 0
           \<lparr>c_state = Idle, c_argument = JNum 1, c_result = JUndefined,
             c_error = JUndefined\<rparr>]\<rparr>) \<and>
   reset_ts demo_options failed_task = reset_p0 demo_options failed_task"
proof -
  have h1: "\<not> isExecuting failed_task"
    by (simp add: failed_task_eq isExecuting_def)
  have h2: "case o_createArgument demo_options of
      None \<Rightarrow> JNum 1 = JUndefined | Some f \<Rightarrow> f () = Returned (JNum 1)"
    by (simp add: demo_options_def)
  have h3: "error failed_task = JError ''boom''" "onIdleHooks failed_task = [0]"
    by (simp_all add: failed_task_eq)
  show ?thesis
    using h1 h2 h3 reset_effect [OF h1 h2]
    by simp
qed

section \<open>Settlement of the action\<close>

text \<open>
  What the code after the \<open>await\<close> does, from any controller \<open>t\<close>. Both files overwrite the
  state without looking at it, so these equations also describe a settlement that arrives
  after \<open>abort\<close>.
\<close>

lemma execute_settle_p0_resolved:
  "execute_settle_p0 opts (Returned v) t =
     (let r = (if truthy v then v else JUndefined);
          c = \<lparr>c_state = Completed, c_argument = argument t, c_result = r,
                c_error = error t\<rparr>
      in (if truthy (error t) \<and> o_throwOnFail opts = Some True then Threw (error t)
          else Returned r,
          t\<lparr>result := r, state := Completed,
            trace := trace t @ map (\<lambda>fn. Dispatched OnCompleted fn c) (onCompletedHooks t)
                       @ map (\<lambda>fn. Dispatched OnFinished fn c) (onFinishedHooks t)\<rparr>))"
  by (simp add: execute_settle_p0_def ctl_defs)

lemma execute_settle_p0_rejected:
  "execute_settle_p0 opts (Threw e) t =
     (let c = \<lparr>c_state = Failed, c_argument = argument t, c_result = result t,
                c_error = e\<rparr>
      in (if truthy e \<and> o_throwOnFail opts = Some True then Threw e
          else Returned (result t),
          t\<lparr>error := e, state := Failed,
            trace := trace t @ map (\<lambda>fn. Dispatched OnFailed fn c) (onFailedHooks t)
                       @ map (\<lambda>fn. Dispatched OnFinished fn c) (onFinishedHooks t)\<rparr>))"
  by (simp add: execute_settle_p0_def ctl_defs)

lemma execute_settle_ts_resolved:
  "execute_settle_ts opts (Returned v) t =
     (let c = \<lparr>c_state = Completed, c_argument = argument t, c_result = v,
                c_error = error t\<rparr>
      in (if truthy (error t) then Threw (error t) else Returned v,
          t\<lparr>result := v, state := Completed,
            trace := trace t @ map (\<lambda>fn. Dispatched OnCompleted fn c) (onCompletedHooks t)
                       @ map (\<lambda>fn. Dispatched OnFinished fn c) (onFinishedHooks t)\<rparr>))"
  by (simp add: execute_settle_ts_def ctl_defs)

lemma execute_settle_ts_rejected:
  "execute_settle_ts opts (Threw e) t =
     (let c = \<lparr>c_state = Failed, c_argument = argument t, c_result = result t,
                c_error = e\<rparr>
      in (if truthy e then Threw e else Returned (result t),
          t\<lparr>error := e, state := Failed,
            trace := trace t @ map (\<lambda>fn. Dispatched OnFailed fn c) (onFailedHooks t)
                       @ map (\<lambda>fn. Dispatched OnFinished fn c) (onFinishedHooks t)\<rparr>))"
  by (simp add: execute_settle_ts_def ctl_defs)

text \<open>The synchronous part of \<open>execute\<close> when both guards pass.\<close>

lemma execute_start_p0_passes:
  "\<not> isExecuting t \<Longrightarrow> eff = (if truthy a then a else argument t) \<Longrightarrow>
   canExecute opts (t\<lparr>argument := eff\<rparr>) \<Longrightarrow>
   execute_start_p0 opts a t =
     (Returned (),
      t\<lparr>argument := eff, state := Executing, result := JUndefined,
        trace := trace t @ map (\<lambda>fn. Dispatched OnExecuting fn
            \<lparr>c_state = Executing, c_argument = eff, c_result = JUndefined,
              c_error = error t\<rparr>) (onExecutingHooks t) @ [ActionCalled eff]\<rparr>)"
  by (cases "truthy a") (auto simp: execute_start_p0_def ctl_defs split: option.splits)

lemma execute_start_ts_passes:
  "\<not> isExecuting t \<Longrightarrow> eff = (if truthy a then a else argument t) \<Longrightarrow>
   canExecute opts (t\<lparr>argument := eff\<rparr>) \<Longrightarrow>
   execute_start_ts opts a t =
     (Returned (),
      t\<lparr>argument := eff, state := Executing, result := JUndefined, error := JUndefined,
        trace := trace t @ map (\<lambda>fn. Dispatched OnExecuting fn
            \<lparr>c_state = Executing, c_argument = eff, c_result = JUndefined,
              c_error = JUndefined\<rparr>) (onExecutingHooks t) @ [ActionCalled eff]\<rparr>)"
  by (cases "truthy a") (auto simp: execute_start_ts_def ctl_defs split: option.splits)

text \<open>
  C9, as amended. In part_000 a successful resolution with a falsy value (\<open>undefined\<close>,
  \<open>null\<close>, \<open>false\<close>, \<open>0\<close>, \<open>NaN\<close>, the empty string) leaves the absent value in the result slot
  of the completed controller. In src/task.ts the resolved value is stored as it is.
\<close>

theorem falsy_resolution_result:
  "\<not> truthy v \<Longrightarrow>
     result (snd (execute_settle_p0 opts (Returned v) t)) = JUndefined \<and>
     state (snd (execute_settle_p0 opts (Returned v) t)) = Completed \<and>
     result (snd (execute_settle_ts opts (Returned v) t)) = v \<and>
     state (snd (execute_settle_ts opts (Returned v) t)) = Completed"
  by (simp add: execute_settle_p0_resolved execute_settle_ts_resolved Let_def)

theorem falsy_resolution_result_witness:
  "\<not> truthy (JStr []) \<and>
   result (snd (execute_settle_p0 demo_options (Returned (JStr [])) running_task)) = JUndefined \<and>
   result (snd (execute_settle_ts demo_options (Returned (JStr [])) running_task)) = JStr []"
proof -
  have h: "\<not> truthy (JStr [])"
    by simp
  show ?thesis
    using h falsy_resolution_result [OF h, of demo_options running_task]
    by simp
qed

text \<open>
  The claim C9 as written fails in src/task.ts: an action that resolves with \<open>0\<close> leaves
  \<open>0\<close> in the result slot, which is not the absent value.
\<close>

theorem falsy_resolution_counterexample:
  "\<not> truthy (JNum 0) \<and>
   state (snd (execute_ts demo_options (\<lambda>a. Returned (JNum 0)) JUndefined demo_task)) = Completed \<and>
   result (snd (execute_ts demo_options (\<lambda>a. Returned (JNum 0)) JUndefined demo_task)) = JNum 0 \<and>
   result (snd (execute_ts demo_options (\<lambda>a. Returned (JNum 0)) JUndefined demo_task)) \<noteq> JUndefined"
  by (simp add: execute_ts_def execute_start_ts_def execute_settle_ts_resolved demo_task_eq
      demo_options_def ctl_defs)

text \<open>
  C2, as amended. When \<open>execute\<close> passes its guards and the action rejects with \<open>e\<close>, the
  controller ends in \<open>Failed\<close> with \<open>e\<close> in the error slot, in both files. In part_000
  \<open>execute\<close> re-raises \<open>e\<close> exactly when \<open>throwOnFail\<close> is true and \<open>e\<close> is truthy, and
  otherwise returns the absent result; so under the default configuration it returns
  without raising. In src/task.ts, which has no \<open>throwOnFail\<close>, \<open>execute\<close> re-raises \<open>e\<close>
  exactly when \<open>e\<close> is truthy.
\<close>

theorem rejection_effect:
  "(execute_start_p0 opts a t = (Returned (), t1) \<and> action (argument t1) = Threw e \<longrightarrow>
      state (snd (execute_p0 opts action a t)) = Failed \<and>
      error (snd (execute_p0 opts action a t)) = e \<and>
      fst (execute_p0 opts action a t) =
        (if o_throwOnFail opts = Some True \<and> truthy e then Threw e else Returned JUndefined)) \<and>
   (execute_start_ts opts a t = (Returned (), t2) \<and> action (argument t2) = Threw e \<longrightarrow>
      state (snd (execute_ts opts action a t)) = Failed \<and>
      error (snd (execute_ts opts action a t)) = e \<and>
      fst (execute_ts opts action a t) =
        (if truthy e then Threw e else Returned JUndefined))"
proof (intro conjI impI)
  assume h: "execute_start_p0 opts a t = (Returned (), t1) \<and> action (argument t1) = Threw e"
  then have r: "result t1 = JUndefined"
    by (auto simp: execute_start_p0_def ctl_defs split: if_splits)
  from h have x: "execute_p0 opts action a t = execute_settle_p0 opts (Threw e) t1"
    by (simp add: execute_p0_def)
  show "state (snd (execute_p0 opts action a t)) = Failed"
    by (simp add: x execute_settle_p0_rejected Let_def)
  show "error (snd (execute_p0 opts action a t)) = e"
    by (simp add: x execute_settle_p0_rejected Let_def)
  show "fst (execute_p0 opts action a t) =
      (if o_throwOnFail opts = Some True \<and> truthy e then Threw e else Returned JUndefined)"
    using r by (simp add: x execute_settle_p0_rejected Let_def)
next
  assume h: "execute_start_ts opts a t = (Returned (), t2) \<and> action (argument t2) = Threw e"
  then have r: "result t2 = JUndefined"
    by (auto simp: execute_start_ts_def ctl_defs split: if_splits)
  from h have x: "execute_ts opts action a t = execute_settle_ts opts (Threw e) t2"
    by (simp add: execute_ts_def)
  show "state (snd (execute_ts opts action a t)) = Failed"
    by (simp add: x execute_settle_ts_rejected Let_def)
  show "error (snd (execute_ts opts action a t)) = e"
    by (simp add: x execute_settle_ts_rejected Let_def)
  show "fst (execute_ts opts action a t) = (if truthy e then Threw e else Returned JUndefined)"
    using r by (simp add: x execute_settle_ts_rejected Let_def)
qed

theorem rejection_effect_witness:
  "execute_start_p0 demo_options JUndefined demo_task = (Returned (), running_task) \<and>
   execute_start_ts demo_options JUndefined demo_task = (Returned (), running_task) \<and>
   increment (argument running_task) = Returned (JNum 6) \<and>
   increment JNull = Threw (JError ''boom'') \<and>
   state (snd (execute_p0 demo_options (\<lambda>a. increment JNull) JUndefined demo_task)) = Failed \<and>
   error (snd (execute_p0 demo_options (\<lambda>a. increment JNull) JUndefined demo_task))
     = JError ''boom'' \<and>
   fst (execute_p0 demo_options (\<lambda>a. increment JNull) JUndefined demo_task)
     = Threw (JError ''boom'') \<and>
   fst (execute_p0 (demo_options\<lparr>o_throwOnFail := None\<rparr>) (\<lambda>a. increment JNull) JUndefined
          demo_task) = Returned JUndefined \<and>
   state (snd (execute_ts demo_options (\<lambda>a. increment JNull) JUndefined demo_task)) = Failed \<and>
   fst (execute_ts demo_options (\<lambda>a. increment JNull) JUndefined demo_task)
     = Threw (JError ''boom'')"
proof -
  have s1: "execute_start_p0 demo_options JUndefined demo_task = (Returned (), running_task)"
    by (simp add: running_task_eq demo_task_eq execute_start_p0_def ctl_defs demo_options_def)
  have s2: "execute_start_p0 (demo_options\<lparr>o_throwOnFail := None\<rparr>) JUndefined demo_task
      = (Returned (), running_task)"
    by (simp add: running_task_eq demo_task_eq execute_start_p0_def ctl_defs demo_options_def)
  have s3: "execute_start_ts demo_options JUndefined demo_task = (Returned (), running_task)"
    by (simp add: running_task_eq demo_task_eq execute_start_ts_def ctl_defs demo_options_def)
  have a1: "increment (argument running_task) = Returned (JNum 6)"
    by (simp add: running_task_eq)
  have a2: "increment JNull = Threw (JError ''boom'')"
    by simp
  have t1: "o_throwOnFail demo_options = Some True"
    "o_throwOnFail (demo_options\<lparr>o_throwOnFail := None\<rparr>) = None"
    by (simp_all add: demo_options_def)
  show ?thesis
    using s1 s2 s3 a1 a2 t1
      rejection_effect [of demo_options JUndefined demo_task running_task
        "\<lambda>a. increment JNull" "JError ''boom''" running_task]
      rejection_effect [of "demo_options\<lparr>o_throwOnFail := None\<rparr>" JUndefined demo_task
        running_task "\<lambda>a. increment JNull" "JError ''boom''" running_task]
    by simp
qed

text \<open>
  The claim C2 as written fails in two places. In part_000, with \<open>throwOnFail\<close> true, an
  action that rejects without a payload (\<open>Promise.reject()\<close>) makes \<open>execute\<close> return instead
  of raising. In src/task.ts, with no options at all, a rejection with \<open>Error("boom")\<close> is
  raised to the caller.
\<close>

theorem rethrow_counterexample:
  "o_throwOnFail demo_options = Some True \<and>
   state (snd (execute_p0 demo_options (\<lambda>a. Threw JUndefined) JUndefined demo_task)) = Failed \<and>
   fst (execute_p0 demo_options (\<lambda>a. Threw JUndefined) JUndefined demo_task)
     = Returned JUndefined \<and>
   o_throwOnFail no_options = None \<and>
   state (snd (execute_ts no_options (\<lambda>a. Threw (JError ''boom'')) JUndefined
                 (new_task JUndefined))) = Failed \<and>
   fst (execute_ts no_options (\<lambda>a. Threw (JError ''boom'')) JUndefined (new_task JUndefined))
     = Threw (JError ''boom'')"
  by (simp add: execute_p0_def execute_ts_def execute_start_p0_def execute_start_ts_def
      execute_settle_p0_rejected execute_settle_ts_rejected demo_task_eq demo_options_def
      no_options_def new_task_def ctl_defs)

section \<open>Abort\<close>

text \<open>A successful \<open>abort\<close> has written the state and called the hooks.\<close>

lemma abort_p0_success:
  "fst (abort_p0 opts t) = Returned () \<Longrightarrow>
     snd (abort_p0 opts t) = forEach_hook OnAborted (onAbortedHooks t) (t\<lparr>state := Aborted\<rparr>)"
  by (auto simp: abort_p0_def Let_def split: if_splits)

lemma abort_ts_success:
  "fst (abort_ts opts t) = Returned () \<Longrightarrow>
     snd (abort_ts opts t) =
       forEach_hook OnAborted (onAbortedHooks t)
         (t\<lparr>state := Aborted, trace := trace t @ [AbortCalled (argument t)]\<rparr>)"
  by (auto simp: abort_ts_def Let_def split: if_splits)

text \<open>
  C3, as amended. A successful \<open>abort\<close> sets the state to \<open>Aborted\<close> and calls every
  registered \<open>onAborted\<close> hook once, in registration order, each seeing the state
  \<open>Aborted\<close> and the untouched argument, result and error. It calls no \<open>onFinished\<close> hook and
  changes nothing else; src/task.ts first calls the abort capability with the argument.
\<close>

theorem abort_effect:
  "(fst (abort_p0 opts t) = Returned () \<longrightarrow>
      snd (abort_p0 opts t) =
        t\<lparr>state := Aborted,
          trace := trace t @ map (\<lambda>fn. Dispatched OnAborted fn
              \<lparr>c_state = Aborted, c_argument = argument t, c_result = result t,
                c_error = error t\<rparr>) (onAbortedHooks t)\<rparr>) \<and>
   (fst (abort_ts opts t) = Returned () \<longrightarrow>
      snd (abort_ts opts t) =
        t\<lparr>state := Aborted,
          trace := trace t @ AbortCalled (argument t) # map (\<lambda>fn. Dispatched OnAborted fn
              \<lparr>c_state = Aborted, c_argument = argument t, c_result = result t,
                c_error = error t\<rparr>) (onAbortedHooks t)\<rparr>)"
  by (auto simp: abort_p0_def abort_ts_def ctl_defs split: if_splits)

theorem abort_effect_witness:
  "fst (abort_p0 demo_options running_task) = Returned () \<and>
   fst (abort_ts demo_options running_task) = Returned () \<and>
   snd (abort_p0 demo_options running_task) =
     running_task\<lparr>state := Aborted,
       trace := trace running_task @ [Dispatched OnAborted 4
         \<lparr>c_state = Aborted, c_argument = JNum 5, c_result = JUndefined,
           c_error = JUndefined\<rparr>]\<rparr> \<and>
   snd (abort_ts demo_options running_task) =
     running_task\<lparr>state := Aborted,
       trace := trace running_task @ [AbortCalled (JNum 5), Dispatched OnAborted 4
         \<lparr>c_state = Aborted, c_argument = JNum 5, c_result = JUndefined,
           c_error = JUndefined\<rparr>]\<rparr>"
proof -
  have h1: "fst (abort_p0 demo_options running_task) = Returned ()"
    by (simp add: abort_p0_def canAbort_p0_def isExecuting_def running_task_eq demo_options_def)
  have h2: "fst (abort_ts demo_options running_task) = Returned ()"
    by (simp add: abort_ts_def canAbort_ts_def isExecuting_def running_task_eq demo_options_def)
  have h3: "argument running_task = JNum 5" "result running_task = JUndefined"
    "error running_task = JUndefined" "onAbortedHooks running_task = [4]"
    by (simp_all add: running_task_eq)
  show ?thesis
    using h1 h2 h3 abort_effect [of demo_options running_task]
    by simp
qed

text \<open>
  The claim C3 as written fails: with two \<open>onFinished\<close> hooks registered, a successful
  \<open>abort\<close> adds to the trace the call of the one \<open>onAborted\<close> hook (after the call of the
  abort capability in src/task.ts) and no call of an \<open>onFinished\<close> hook.
\<close>

theorem abort_onFinished_counterexample:
  "fst (abort_p0 demo_options running_task) = Returned () \<and>
   fst (abort_ts demo_options running_task) = Returned () \<and>
   onFinishedHooks running_task = [5, 6] \<and>
   trace (snd (abort_p0 demo_options running_task)) =
     trace running_task @ [Dispatched OnAborted 4
       \<lparr>c_state = Aborted, c_argument = JNum 5, c_result = JUndefined, c_error = JUndefined\<rparr>] \<and>
   trace (snd (abort_ts demo_options running_task)) =
     trace running_task @ [AbortCalled (JNum 5), Dispatched OnAborted 4
       \<lparr>c_state = Aborted, c_argument = JNum 5, c_result = JUndefined, c_error = JUndefined\<rparr>]"
  by (simp add: abort_p0_def abort_ts_def canAbort_p0_def canAbort_ts_def running_task_eq
      demo_options_def ctl_defs)

text \<open>
  C1, as amended. When \<open>abort\<close> succeeds while the action is in flight, the state becomes
  \<open>Aborted\<close> and the result and error slots stay as they were, but the settlement of the
  action is still acted on. When the action then resolves with \<open>v\<close>, the state becomes
  \<open>Completed\<close>, the result slot is overwritten (with \<open>v\<close>, or in part_000 with the absent
  value when \<open>v\<close> is falsy) and the \<open>onCompleted\<close> hooks and then the \<open>onFinished\<close> hooks
  are called. When it rejects with \<open>e\<close>, the state becomes \<open>Failed\<close>, the error slot becomes
  \<open>e\<close> and the \<open>onFailed\<close> hooks and then the \<open>onFinished\<close> hooks are called.
\<close>

theorem settlement_after_abort:
  "(fst (abort_p0 opts t) = Returned () \<longrightarrow>
      (let t' = snd (abort_p0 opts t);
           r = (if truthy v then v else JUndefined);
           c = \<lparr>c_state = Completed, c_argument = argument t, c_result = r,
                 c_error = error t\<rparr>;
           d = \<lparr>c_state = Failed, c_argument = argument t, c_result = result t,
                 c_error = e\<rparr>
       in state t' = Aborted \<and> result t' = result t \<and> error t' = error t \<and>
          snd (execute_settle_p0 opts (Returned v) t') =
            t'\<lparr>result := r, state := Completed,
              trace := trace t' @ map (\<lambda>fn. Dispatched OnCompleted fn c) (onCompletedHooks t)
                         @ map (\<lambda>fn. Dispatched OnFinished fn c) (onFinishedHooks t)\<rparr> \<and>
          snd (execute_settle_p0 opts (Threw e) t') =
            t'\<lparr>error := e, state := Failed,
              trace := trace t' @ map (\<lambda>fn. Dispatched OnFailed fn d) (onFailedHooks t)
                         @ map (\<lambda>fn. Dispatched OnFinished fn d) (onFinishedHooks t)\<rparr>)) \<and>
   (fst (abort_ts opts t) = Returned () \<longrightarrow>
      (let t' = snd (abort_ts opts t);
           c = \<lparr>c_state = Completed, c_argument = argument t, c_result = v,
                 c_error = error t\<rparr>;
           d = \<lparr>c_state = Failed, c_argument = argument t, c_result = result t,
                 c_error = e\<rparr>
       in state t' = Aborted \<and> result t' = result t \<and> error t' = error t \<and>
          snd (execute_settle_ts opts (Returned v) t') =
            t'\<lparr>result := v, state := Completed,
              trace := trace t' @ map (\<lambda>fn. Dispatched OnCompleted fn c) (onCompletedHooks t)
                         @ map (\<lambda>fn. Dispatched OnFinished fn c) (onFinishedHooks t)\<rparr> \<and>
          snd (execute_settle_ts opts (Threw e) t') =
            t'\<lparr>error := e, state := Failed,
              trace := trace t' @ map (\<lambda>fn. Dispatched OnFailed fn d) (onFailedHooks t)
                         @ map (\<lambda>fn. Dispatched OnFinished fn d) (onFinishedHooks t)\<rparr>))"
  by (simp add: abort_p0_success abort_ts_success execute_settle_p0_resolved
      execute_settle_p0_rejected execute_settle_ts_resolved execute_settle_ts_rejected
      forEach_hook_def Let_def)

theorem settlement_after_abort_witness:
  "fst (abort_p0 demo_options running_task) = Returned () \<and>
   fst (abort_ts demo_options running_task) = Returned () \<and>
   state (snd (abort_p0 demo_options running_task)) = Aborted \<and>
   state (snd (execute_settle_p0 demo_options (Returned (JNum 6))
            (snd (abort_p0 demo_options running_task)))) = Completed \<and>
   state (snd (execute_settle_p0 demo_options (Threw (JError ''boom''))
            (snd (abort_p0 demo_options running_task)))) = Failed \<and>
   state (snd (abort_ts demo_options running_task)) = Aborted \<and>
   state (snd (execute_settle_ts demo_options (Returned (JNum 6))
            (snd (abort_ts demo_options running_task)))) = Completed \<and>
   state (snd (execute_settle_ts demo_options (Threw (JError ''boom''))
            (snd (abort_ts demo_options running_task)))) = Failed"
proof -
  have h1: "fst (abort_p0 demo_options running_task) = Returned ()"
    by (simp add: abort_p0_def canAbort_p0_def isExecuting_def running_task_eq demo_options_def)
  have h2: "fst (abort_ts demo_options running_task) = Returned ()"
    by (simp add: abort_ts_def canAbort_ts_def isExecuting_def running_task_eq demo_options_def)
  show ?thesis
    using h1 h2
      settlement_after_abort [of demo_options running_task "JNum 6" "JError ''boom''"]
    by (simp add: Let_def)
qed

text \<open>
  The claim C1 as written fails: after a successful \<open>abort\<close> of the running task, the
  resolution of the action with \<open>6\<close> moves the state from \<open>Aborted\<close> to \<open>Completed\<close>, writes
  \<open>6\<close> into the result slot and calls the \<open>onCompleted\<close> hook and both \<open>onFinished\<close> hooks.
\<close>

theorem settlement_after_abort_counterexample:
  "fst (abort_p0 demo_options running_task) = Returned () \<and>
   state (snd (abort_p0 demo_options running_task)) = Aborted \<and>
   result (snd (abort_p0 demo_options running_task)) = JUndefined \<and>
   state (snd (execute_settle_p0 demo_options (Returned (JNum 6))
            (snd (abort_p0 demo_options running_task)))) = Completed \<and>
   result (snd (execute_settle_p0 demo_options (Returned (JNum 6))
            (snd (abort_p0 demo_options running_task)))) = JNum 6 \<and>
   trace (snd (execute_settle_p0 demo_options (Returned (JNum 6))
            (snd (abort_p0 demo_options running_task)))) =
     trace (snd (abort_p0 demo_options running_task)) @
       [Dispatched OnCompleted 2 \<lparr>c_state = Completed, c_argument = JNum 5,
          c_result = JNum 6, c_error = JUndefined\<rparr>,
        Dispatched OnFinished 5 \<lparr>c_state = Completed, c_argument = JNum 5,
          c_result = JNum 6, c_error = JUndefined\<rparr>,
        Dispatched OnFinished 6 \<lparr>c_state = Completed, c_argument = JNum 5,
          c_result = JNum 6, c_error = JUndefined\<rparr>] \<and>
   fst (abort_ts demo_options running_task) = Returned () \<and>
   state (snd (abort_ts demo_options running_task)) = Aborted \<and>
   state (snd (execute_settle_ts demo_options (Returned (JNum 6))
            (snd (abort_ts demo_options running_task)))) = Completed \<and>
   result (snd (execute_settle_ts demo_options (Returned (JNum 6))
            (snd (abort_ts demo_options running_task)))) = JNum 6"
  by (simp add: abort_p0_def abort_ts_def canAbort_p0_def canAbort_ts_def running_task_eq
      demo_options_def execute_settle_p0_resolved execute_settle_ts_resolved ctl_defs)

section \<open>Entering Executing\<close>

text \<open>
  In src/task.ts an \<open>execute\<close> that passes its guards clears both slots before the
  \<open>onExecuting\<close> hooks are called, so every hook sees an absent result and an absent error.
\<close>

lemma execute_start_ts_clears:
  "execute_start_ts opts a t = (Returned (), t') \<Longrightarrow>
     state t' = Executing \<and> result t' = JUndefined \<and> error t' = JUndefined \<and>
     trace t' = trace t @ map (\<lambda>fn. Dispatched OnExecuting fn
         \<lparr>c_state = Executing, c_argument = argument t', c_result = JUndefined,
           c_error = JUndefined\<rparr>) (onExecutingHooks t) @ [ActionCalled (argument t')]"
  by (auto simp: execute_start_ts_def ctl_defs split: if_splits)

text \<open>
  C4. In part_000 \<open>execute\<close> clears the result slot only. On the controller left by a failed
  run (state \<open>Failed\<close>, error \<open>Error("boom")\<close>), the next \<open>execute\<close> passes its guards, enters
  \<open>Executing\<close> with the old error still in the slot, and the \<open>onExecuting\<close> hook is called
  with that error in its context. When the action then resolves with \<open>6\<close>, the controller is
  \<open>Completed\<close> with result \<open>6\<close>, the old error is still in the slot and, \<open>throwOnFail\<close> being
  true, \<open>execute\<close> raises it.
\<close>

theorem stale_error_on_execute:
  "state failed_task = Failed \<and> error failed_task = JError ''boom'' \<and>
   fst (execute_start_p0 demo_options JUndefined failed_task) = Returned () \<and>
   state (snd (execute_start_p0 demo_options JUndefined failed_task)) = Executing \<and>
   result (snd (execute_start_p0 demo_options JUndefined failed_task)) = JUndefined \<and>
   error (snd (execute_start_p0 demo_options JUndefined failed_task)) = JError ''boom'' \<and>
   trace (snd (execute_start_p0 demo_options JUndefined failed_task)) =
     trace failed_task @
       [Dispatched OnExecuting 1 \<lparr>c_state = Executing, c_argument = JNum 5,
          c_result = JUndefined, c_error = JError ''boom''\<rparr>,
        ActionCalled (JNum 5)] \<and>
   increment (JNum 5) = Returned (JNum 6) \<and>
   state (snd (execute_p0 demo_options increment JUndefined failed_task)) = Completed \<and>
   result (snd (execute_p0 demo_options increment JUndefined failed_task)) = JNum 6 \<and>
   error (snd (execute_p0 demo_options increment JUndefined failed_task)) = JError ''boom'' \<and>
   fst (execute_p0 demo_options increment JUndefined failed_task) = Threw (JError ''boom'')"
  by (simp add: execute_p0_def execute_start_p0_def execute_settle_p0_resolved failed_task_eq
      demo_options_def ctl_defs)

section \<open>The argument of execute\<close>

lemma execute_settle_argument:
  "argument (snd (execute_settle_p0 opts s t)) = argument t"
  "argument (snd (execute_settle_ts opts s t)) = argument t"
  by (cases s; simp add: execute_settle_p0_resolved execute_settle_p0_rejected
      execute_settle_ts_resolved execute_settle_ts_rejected Let_def)+

text \<open>
  C5, as amended. Let \<open>eff\<close> be the value passed to \<open>execute\<close> when that value is truthy, and
  the stored argument when the value is omitted or falsy. When \<open>execute\<close> is called outside
  \<open>Executing\<close> and the \<open>canExecute\<close> guard accepts \<open>eff\<close>, the action is called with \<open>eff\<close>, the
  run continues with the settlement of that call, and \<open>eff\<close> is the stored argument
  afterwards. So a truthy value overrides the stored argument and persists, and an omitted
  or falsy value leaves the stored argument in use and unchanged. This holds in both files.
\<close>

theorem execute_argument_precedence:
  "\<not> isExecuting t \<Longrightarrow> eff = (if truthy a then a else argument t) \<Longrightarrow>
   canExecute opts (t\<lparr>argument := eff\<rparr>) \<Longrightarrow>
     last (trace (snd (execute_start_p0 opts a t))) = ActionCalled eff \<and>
     execute_p0 opts action a t =
       execute_settle_p0 opts (action eff) (snd (execute_start_p0 opts a t)) \<and>
     argument (snd (execute_p0 opts action a t)) = eff \<and>
     last (trace (snd (execute_start_ts opts a t))) = ActionCalled eff \<and>
     execute_ts opts action a t =
       execute_settle_ts opts (action eff) (snd (execute_start_ts opts a t)) \<and>
     argument (snd (execute_ts opts action a t)) = eff"
proof -
  assume h: "\<not> isExecuting t" "eff = (if truthy a then a else argument t)"
    "canExecute opts (t\<lparr>argument := eff\<rparr>)"
  note p = execute_start_p0_passes [OF h]
  note q = execute_start_ts_passes [OF h]
  have p1: "last (trace (snd (execute_start_p0 opts a t))) = ActionCalled eff"
    by (simp add: p)
  have p2: "execute_p0 opts action a t =
      execute_settle_p0 opts (action eff) (snd (execute_start_p0 opts a t))"
    by (simp add: execute_p0_def p)
  have p3: "argument (snd (execute_p0 opts action a t)) = eff"
    by (simp add: p2 execute_settle_argument) (simp add: p)
  have q1: "last (trace (snd (execute_start_ts opts a t))) = ActionCalled eff"
    by (simp add: q)
  have q2: "execute_ts opts action a t =
      execute_settle_ts opts (action eff) (snd (execute_start_ts opts a t))"
    by (simp add: execute_ts_def q)
  have q3: "argument (snd (execute_ts opts action a t)) = eff"
    by (simp add: q2 execute_settle_argument) (simp add: q)
  from p1 p2 p3 q1 q2 q3 show ?thesis
    by simp
qed

theorem execute_argument_precedence_witness:
  "\<not> isExecuting demo_task \<and> argument demo_task = JNum 5 \<and>
   truthy (JNum 9) \<and> canExecute demo_options (demo_task\<lparr>argument := JNum 9\<rparr>) \<and>
   last (trace (snd (execute_start_p0 demo_options (JNum 9) demo_task))) = ActionCalled (JNum 9) \<and>
   argument (snd (execute_p0 demo_options increment (JNum 9) demo_task)) = JNum 9 \<and>
   argument (snd (execute_ts demo_options increment (JNum 9) demo_task)) = JNum 9 \<and>
   \<not> truthy JUndefined \<and> canExecute demo_options (demo_task\<lparr>argument := JNum 5\<rparr>) \<and>
   last (trace (snd (execute_start_p0 demo_options JUndefined demo_task))) = ActionCalled (JNum 5) \<and>
   argument (snd (execute_p0 demo_options increment JUndefined demo_task)) = JNum 5 \<and>
   argument (snd (execute_ts demo_options increment JUndefined demo_task)) = JNum 5"
proof -
  have h1: "\<not> isExecuting demo_task"
    by (simp add: demo_task_eq isExecuting_def)
  have t9: "truthy (JNum 9)" "\<not> truthy JUndefined"
    by simp_all
  have h2: "JNum 9 = (if truthy (JNum 9) then JNum 9 else argument demo_task)"
    by simp
  have h3: "canExecute demo_options (demo_task\<lparr>argument := JNum 9\<rparr>)"
    by (simp add: canExecute_def demo_options_def)
  have k2: "JNum 5 = (if truthy JUndefined then JUndefined else argument demo_task)"
    by (simp add: demo_task_eq)
  have k3: "canExecute demo_options (demo_task\<lparr>argument := JNum 5\<rparr>)"
    by (simp add: canExecute_def demo_options_def)
  have a: "argument demo_task = JNum 5"
    by (simp add: demo_task_eq)
  show ?thesis
    using h1 h3 k3 a t9
      execute_argument_precedence [OF h1 h2 h3, of increment]
      execute_argument_precedence [OF h1 k2 k3, of increment]
    by blast
qed

text \<open>
  The claim C5 as written fails for a falsy value of the argument type: \<open>execute(0)\<close> on a
  controller whose stored argument is \<open>5\<close> calls the action with \<open>5\<close>, completes with the
  result \<open>6\<close>, and the stored argument is still \<open>5\<close>. The same happens in both files.
\<close>

theorem falsy_argument_counterexample:
  "argument (new_task (JNum 5)) = JNum 5 \<and>
   ActionCalled (JNum 5) \<in> set (trace (snd (execute_p0 no_options increment (JNum 0)
                                              (new_task (JNum 5))))) \<and>
   ActionCalled (JNum 0) \<notin> set (trace (snd (execute_p0 no_options increment (JNum 0)
                                              (new_task (JNum 5))))) \<and>
   fst (execute_p0 no_options increment (JNum 0) (new_task (JNum 5))) = Returned (JNum 6) \<and>
   argument (snd (execute_p0 no_options increment (JNum 0) (new_task (JNum 5)))) = JNum 5 \<and>
   fst (execute_ts no_options increment (JNum 0) (new_task (JNum 5))) = Returned (JNum 6) \<and>
   argument (snd (execute_ts no_options increment (JNum 0) (new_task (JNum 5)))) = JNum 5"
  by (simp add: execute_p0_def execute_ts_def execute_start_p0_def execute_start_ts_def
      execute_settle_p0_resolved execute_settle_ts_resolved no_options_def new_task_def ctl_defs)

end
